theory Spec2Isabelle
  imports Complex_Main "HOL-Library.AList"
begin

section \<open>Shared types and constants (core/utils/types.py)\<close>

text \<open>
  Modelling conventions. Python floats are modelled by exact reals: rounding errors of
  binary floating point are outside the model. A \<open>datetime\<close> is an integer count of
  microseconds, the resolution of Python's \<open>datetime\<close>; the ISO strings the database
  stores and compares are modelled by that integer. \<open>time.time()\<close> is a real number of
  seconds. Every call of \<open>datetime.now()\<close> or \<open>time.time()\<close> in the source is an explicit
  argument of the model, in the order of the calls.
\<close>

datatype error = ValueError | ZeroDivisionError

definition NEGATIVE_EMOTIONS :: "string list" where
  "NEGATIVE_EMOTIONS =
     [''angry'', ''fear'', ''sad'', ''disgust'', ''stress_high'', ''fatigue'']"

text \<open>Truth value of an \<open>Optional[str]\<close>: \<open>None\<close> and the empty string are false.\<close>

definition truthy :: "string option \<Rightarrow> bool" where
  "truthy e = (case e of None \<Rightarrow> False | Some s \<Rightarrow> s \<noteq> [])"

text \<open>
  Python's \<open>round(x, nd)\<close> on an exact value: to the nearest multiple of \<open>10 ^ -nd\<close>,
  ties to the even one.
\<close>

definition round_half_even :: "real \<Rightarrow> int" where
  "round_half_even y =
     (let f = \<lfloor>y\<rfloor>; d = y - of_int f
      in if d < 1 / 2 then f
         else if 1 / 2 < d then f + 1
         else if even f then f else f + 1)"

definition py_round :: "real \<Rightarrow> nat \<Rightarrow> real" where
  "py_round x nd = of_int (round_half_even (x * 10 ^ nd)) / 10 ^ nd"

text \<open>Python's slice \<open>xs[s:]\<close> for any integer \<open>s\<close>.\<close>

definition slice_from :: "'a list \<Rightarrow> int \<Rightarrow> 'a list" where
  "slice_from xs s =
     (if s < 0 then drop (nat (int (length xs) + s)) xs else drop (nat s) xs)"

section \<open>StressCalculator (core/services/stress_calculator.py)\<close>

record emotion_entry =
  emotion :: string
  timestamp :: real
  confidence :: real

record stress_event =
  se_timestamp :: int
  se_stress_index :: real
  se_emotion :: string
  se_person_count :: nat
  se_employee_id :: "string option"

record stress_calculator =
  max_history :: nat
  window_size :: int
  employee_histories :: "string \<rightharpoonup> emotion_entry list"
  global_history :: "emotion_entry list"
  stress_events :: "stress_event list"

definition new_stress_calculator :: "nat \<Rightarrow> int \<Rightarrow> stress_calculator" where
  "new_stress_calculator mh ws =
     \<lparr>max_history = mh, window_size = ws, employee_histories = Map.empty,
      global_history = [], stress_events = []\<rparr>"

text \<open>\<open>deque(maxlen = n).append(x)\<close>: the oldest entries are dropped on overflow.\<close>

definition deque_append :: "nat \<Rightarrow> 'a list \<Rightarrow> 'a \<Rightarrow> 'a list" where
  "deque_append n xs x = (let ys = xs @ [x] in drop (length ys - n) ys)"

definition add_emotion ::
  "stress_calculator \<Rightarrow> string \<Rightarrow> string option \<Rightarrow> real \<Rightarrow> real \<Rightarrow> stress_calculator" where
  "add_emotion sc emo employee_id conf now =
     (let entry = \<lparr>emotion = emo, timestamp = now, confidence = conf\<rparr>;
          sc1 = sc\<lparr>global_history := deque_append (max_history sc) (global_history sc) entry\<rparr>
      in if truthy employee_id
         then (let e = the employee_id;
                   h = (case employee_histories sc1 e of None \<Rightarrow> [] | Some h \<Rightarrow> h)
               in sc1\<lparr>employee_histories :=
                        (employee_histories sc1)(e \<mapsto> deque_append (max_history sc) h entry)\<rparr>)
         else sc1)"

text \<open>
  The history a call works on: the subject's own one when the identifier is non-empty and
  has an entry in \<open>employee_histories\<close>, the global one otherwise.
\<close>

definition select_history :: "stress_calculator \<Rightarrow> string option \<Rightarrow> emotion_entry list" where
  "select_history sc employee_id =
     (if truthy employee_id \<and> the employee_id \<in> dom (employee_histories sc)
      then the (employee_histories sc (the employee_id))
      else global_history sc)"

definition effective_window :: "stress_calculator \<Rightarrow> int option \<Rightarrow> int" where
  "effective_window sc window =
     (case window of None \<Rightarrow> window_size sc
      | Some w \<Rightarrow> if w = 0 then window_size sc else w)"

definition recent_emotions :: "emotion_entry list \<Rightarrow> int \<Rightarrow> emotion_entry list" where
  "recent_emotions history w = slice_from history (- w)"

definition negative_count :: "emotion_entry list \<Rightarrow> nat" where
  "negative_count es = length (filter (\<lambda>e. emotion e \<in> set NEGATIVE_EMOTIONS) es)"

definition calculate_stress_index ::
  "stress_calculator \<Rightarrow> string option \<Rightarrow> int option \<Rightarrow> real" where
  "calculate_stress_index sc employee_id window =
     (let w = effective_window sc window;
          history = select_history sc employee_id
      in if length history < 5 then 0
         else (let recent = recent_emotions history w;
                   total = length recent
               in if total = 0 then 0
                  else py_round (real (negative_count recent) / real total * 100) 2))"


text \<open>
  A Python \<open>dict\<close> of counts keeps its keys in insertion order; it is an association list
  with distinct keys. \<open>d[k] = d.get(k, 0) + 1\<close> keeps the position of an existing key
  and appends a new one.
\<close>

definition dict_get :: "(string \<times> nat) list \<Rightarrow> string \<Rightarrow> nat \<Rightarrow> nat" where
  "dict_get d k dflt = (case map_of d k of None \<Rightarrow> dflt | Some v \<Rightarrow> v)"

definition count_emotion :: "(string \<times> nat) list \<Rightarrow> string \<Rightarrow> (string \<times> nat) list" where
  "count_emotion d k = AList.update k (dict_get d k 0 + 1) d"

definition get_emotion_distribution ::
  "stress_calculator \<Rightarrow> string option \<Rightarrow> int \<Rightarrow> real \<Rightarrow> (string \<times> nat) list" where
  "get_emotion_distribution sc employee_id hours now =
     (let cutoff_time = now - real_of_int (hours * 3600);
          history = select_history sc employee_id;
          recent = filter (\<lambda>e. cutoff_time \<le> timestamp e) history
      in foldl count_emotion [] (map emotion recent))"

text \<open>Python's \<open>max(xs, key = f)\<close> on a non-empty list: the first maximal element.\<close>

fun max_by :: "('a \<Rightarrow> nat) \<Rightarrow> 'a \<Rightarrow> 'a list \<Rightarrow> 'a" where
  "max_by f best [] = best"
| "max_by f best (x # xs) = max_by f (if f best < f x then x else best) xs"



definition clear_history :: "stress_calculator \<Rightarrow> string option \<Rightarrow> stress_calculator" where
  "clear_history sc employee_id =
     (if truthy employee_id
      then (if the employee_id \<in> dom (employee_histories sc)
            then sc\<lparr>employee_histories := (employee_histories sc)(the employee_id \<mapsto> [])\<rparr>
            else sc)
      else sc\<lparr>global_history := [], employee_histories := Map.empty\<rparr>)"

section \<open>Properties of the stress index\<close>

section \<open>FaceRecognizer (core/detectors/face_recognizer.py)\<close>

text \<open>
  An embedding is a one-dimensional array of floats. The face images and the network that
  turns one into an embedding are outside the model: a call of \<open>generate_embedding\<close> is
  represented by its result, \<open>None\<close> when it failed. The cache is a Python \<open>dict\<close>, whose
  iteration order is the insertion order: an association list with distinct keys.
\<close>

type_synonym embedding = "real list"

record face_recognizer =
  threshold :: real
  embeddings_cache :: "(string \<times> embedding) list"

text \<open>
  \<open>_load_embeddings\<close>: one pair per enrolment file that could be parsed, holding its
  \<open>employee_id\<close> and \<open>embedding\<close> entries.
\<close>

definition load_embeddings ::
  "face_recognizer \<Rightarrow> (string option \<times> embedding) list \<Rightarrow> face_recognizer" where
  "load_embeddings fr files =
     fr\<lparr>embeddings_cache :=
          foldl (\<lambda>c (eid, emb). if truthy eid \<and> 0 < length emb
                                 then AList.update (the eid) emb c else c) [] files\<rparr>"

text \<open>\<open>np.dot\<close> of two one-dimensional arrays raises \<open>ValueError\<close> on different shapes.\<close>

definition np_dot :: "embedding \<Rightarrow> embedding \<Rightarrow> error + real" where
  "np_dot v1 v2 =
     (if length v1 \<noteq> length v2 then Inl ValueError
      else Inr (sum_list (map (\<lambda>(a, b). a * b) (zip v1 v2))))"

definition np_norm :: "embedding \<Rightarrow> real" where
  "np_norm v = sqrt (sum_list (map (\<lambda>a. a * a) v))"

definition cosine_similarity :: "embedding \<Rightarrow> embedding \<Rightarrow> error + real" where
  "cosine_similarity vec1 vec2 =
     (case np_dot vec1 vec2 of
        Inl err \<Rightarrow> Inl err
      | Inr dot_product \<Rightarrow>
          (let norm1 = np_norm vec1; norm2 = np_norm vec2
           in if norm1 = 0 \<or> norm2 = 0 then Inr 0
              else Inr (dot_product / (norm1 * norm2))))"

text \<open>The loop of \<open>recognize_face\<close> over the cache, carrying the best match so far.\<close>

fun best_match_loop ::
  "embedding \<Rightarrow> (string \<times> embedding) list \<Rightarrow> string option \<times> real
     \<Rightarrow> error + (string option \<times> real)" where
  "best_match_loop q [] best = Inr best"
| "best_match_loop q ((employee_id, stored_embedding) # rest) (best_match, best_similarity) =
     (case cosine_similarity q stored_embedding of
        Inl err \<Rightarrow> Inl err
      | Inr similarity \<Rightarrow>
          best_match_loop q rest
            (if best_similarity < similarity then (Some employee_id, similarity)
             else (best_match, best_similarity)))"

definition recognize_face ::
  "face_recognizer \<Rightarrow> embedding option \<Rightarrow> error + (string option \<times> real)" where
  "recognize_face fr query_embedding =
     (if query_embedding = None \<or> length (embeddings_cache fr) = 0 then Inr (None, 0)
      else (case best_match_loop (the query_embedding) (embeddings_cache fr) (None, 0) of
              Inl err \<Rightarrow> Inl err
            | Inr (best_match, best_similarity) \<Rightarrow>
                if threshold fr \<le> best_similarity then Inr (best_match, best_similarity)
                else Inr (None, best_similarity)))"

text \<open>
  \<open>np.mean(embeddings, axis = 0)\<close>: the component-wise mean of arrays of one shape;
  arrays of different shapes raise \<open>ValueError\<close>.
\<close>

definition np_mean_axis0 :: "embedding list \<Rightarrow> error + embedding" where
  "np_mean_axis0 es =
     (case es of
        [] \<Rightarrow> Inl ValueError
      | e # rest \<Rightarrow>
          if \<not> list_all (\<lambda>x. length x = length e) rest then Inl ValueError
          else Inr (map (\<lambda>k. sum_list (map (\<lambda>x. x ! k) es) / real (length es))
                      [0..<length e]))"

text \<open>The pairs \<open>(embeddings[i], embeddings[j])\<close> with \<open>i < j\<close>, in the order of the loops.\<close>

fun unordered_pairs :: "'a list \<Rightarrow> ('a \<times> 'a) list" where
  "unordered_pairs [] = []"
| "unordered_pairs (x # xs) = map (Pair x) xs @ unordered_pairs xs"

fun collect :: "(error + 'a) list \<Rightarrow> error + 'a list" where
  "collect [] = Inr []"
| "collect (r # rs) =
     (case r of
        Inl err \<Rightarrow> Inl err
      | Inr x \<Rightarrow> (case collect rs of Inl err \<Rightarrow> Inl err | Inr xs \<Rightarrow> Inr (x # xs)))"

definition np_mean :: "real list \<Rightarrow> real" where
  "np_mean xs = sum_list xs / real (length xs)"

text \<open>
  What the file system does to the writes of \<open>enroll_employee\<close>: the JSON file may fail
  to be written, or the directory of sample images may fail after the JSON file and the
  cache have been written. Both are caught by the same \<open>except\<close>.
\<close>

datatype io_outcome = IoOk | JsonWriteFails | SampleSaveFails

definition enroll_employee ::
  "face_recognizer \<Rightarrow> string \<Rightarrow> embedding option list \<Rightarrow> io_outcome
     \<Rightarrow> (error + bool) \<times> face_recognizer" where
  "enroll_employee fr employee_id face_samples io =
     (if length face_samples < 3 then (Inr False, fr)
      else
        (let embeddings = map the (filter (\<lambda>e. e \<noteq> None) face_samples)
         in if length embeddings < 3 then (Inr False, fr)
            else
              (case np_mean_axis0 embeddings of
                 Inl err \<Rightarrow> (Inl err, fr)
               | Inr avg_embedding \<Rightarrow>
                   (case collect (map (\<lambda>(a, b). cosine_similarity a b)
                                    (unordered_pairs embeddings)) of
                      Inl err \<Rightarrow> (Inl err, fr)
                    | Inr similarities \<Rightarrow>
                        (let quality_score =
                               (if similarities = [] then 0 else np_mean similarities)
                         in if quality_score < 0.70 then (Inr False, fr)
                            else
                              (case io of
                                 JsonWriteFails \<Rightarrow> (Inr False, fr)
                               | SampleSaveFails \<Rightarrow>
                                   (Inr False,
                                    fr\<lparr>embeddings_cache :=
                                         AList.update employee_id avg_embedding
                                           (embeddings_cache fr)\<rparr>)
                               | IoOk \<Rightarrow>
                                   (Inr True,
                                    fr\<lparr>embeddings_cache :=
                                         AList.update employee_id avg_embedding
                                           (embeddings_cache fr)\<rparr>)))))))"

section \<open>Database (core/database/database.py)\<close>

datatype alert_type = HIGH_STRESS_PROLONGED | FATIGUE_DETECTED | ANOMALY_DETECTED

datatype alert_severity = LOW | MEDIUM | HIGH

datatype alert_status = PENDING | ACKNOWLEDGED | RESOLVED

record alert =
  alert_id :: nat
  a_employee_id :: "string option"
  a_alert_type :: alert_type
  a_severity :: alert_severity
  a_stress_level :: real
  a_timestamp :: int
  a_status :: alert_status
  a_message :: string
  a_resolved_at :: "int option"
  a_resolved_by :: "string option"

text \<open>
  A row of \<open>detection_events\<close>, with the columns the services read. The session, track,
  bounding box, probabilities and processing time are stored and read back unchanged and
  are left out.
\<close>

record detection_event =
  d_detection_id :: nat
  d_employee_id :: "string option"
  d_timestamp :: int
  d_emotion :: "string option"
  d_confidence :: real
  d_stress_level :: "real option"

record employee_detail =
  ed_detection_count :: nat
  ed_avg_stress_level :: real
  ed_predominant_emotion :: string

record report =
  r_timestamp :: int
  r_period_start :: int
  r_period_end :: int
  r_total_detections :: nat
  r_employees_detected :: nat
  r_avg_stress_level :: real
  r_emotion_distribution :: "(string \<times> nat) list"
  r_alerts_generated :: nat
  r_employee_details :: "(string \<times> employee_detail) list"

text \<open>
  The tables, each in insertion order. Rows are never deleted, so the next
  \<open>AUTOINCREMENT\<close> key is one more than the largest key of the table.
\<close>

record database =
  detection_events :: "detection_event list"
  alerts :: "alert list"
  reports :: "report list"

definition next_alert_id :: "database \<Rightarrow> nat" where
  "next_alert_id db = Suc (foldr max (map alert_id (alerts db)) 0)"

text \<open>
  \<open>add_alert\<close>: the flag says whether the \<open>INSERT\<close> went through; when it raised, the
  method returns \<open>None\<close> and the transaction is rolled back. The statement does not write
  \<open>resolved_at\<close> and \<open>resolved_by\<close>, which are \<open>NULL\<close> in the new row.
\<close>

definition add_alert :: "database \<Rightarrow> alert \<Rightarrow> bool \<Rightarrow> nat option \<times> database" where
  "add_alert db a insert_ok =
     (if insert_ok
      then (Some (next_alert_id db),
            db\<lparr>alerts := alerts db @
                   [a\<lparr>alert_id := next_alert_id db, a_resolved_at := None,
                      a_resolved_by := None\<rparr>]\<rparr>)
      else (None, db))"

text \<open>
  \<open>ORDER BY timestamp DESC LIMIT ?\<close>: rows of equal timestamp are kept in insertion
  order (SQL leaves their order open).
\<close>

definition get_detections ::
  "database \<Rightarrow> string option \<Rightarrow> int option \<Rightarrow> int option \<Rightarrow> nat \<Rightarrow> detection_event list" where
  "get_detections db employee_id start_time end_time limit =
     take limit
       (sort_key (\<lambda>d. - d_timestamp d)
          (filter (\<lambda>d. (if truthy employee_id then d_employee_id d = employee_id else True)
                      \<and> (case start_time of None \<Rightarrow> True | Some t \<Rightarrow> t \<le> d_timestamp d)
                      \<and> (case end_time of None \<Rightarrow> True | Some t \<Rightarrow> d_timestamp d \<le> t))
             (detection_events db)))"

definition get_alerts ::
  "database \<Rightarrow> alert_status option \<Rightarrow> string option \<Rightarrow> nat \<Rightarrow> alert list" where
  "get_alerts db status employee_id limit =
     take limit
       (sort_key (\<lambda>a. - a_timestamp a)
          (filter (\<lambda>a. (case status of None \<Rightarrow> True | Some st \<Rightarrow> a_status a = st)
                      \<and> (if truthy employee_id then a_employee_id a = employee_id else True))
             (alerts db)))"

text \<open>
  \<open>update_alert_status\<close>: one \<open>UPDATE\<close> of the row with the given key, whatever its
  present status. The flag says whether the statement went through.
\<close>

definition update_alert_status ::
  "database \<Rightarrow> nat \<Rightarrow> alert_status \<Rightarrow> string option \<Rightarrow> int \<Rightarrow> bool \<Rightarrow> bool \<times> database" where
  "update_alert_status db aid status resolved_by now update_ok =
     (if update_ok
      then (let resolved_at = (if status = RESOLVED then Some now else None)
            in (True,
                db\<lparr>alerts :=
                     map (\<lambda>a. if alert_id a = aid
                               then a\<lparr>a_status := status, a_resolved_at := resolved_at,
                                      a_resolved_by := resolved_by\<rparr>
                               else a)
                       (alerts db)\<rparr>))
      else (False, db))"

section \<open>AlertManager (core/services/alert_manager.py)\<close>

text \<open>
  The manager's own state. The database and the stress calculator it holds references to
  are shared with the rest of the application; they are passed to each operation, and the
  database is returned updated.
\<close>

record alert_manager =
  alert_threshold :: int
  alert_window_minutes :: int
  cooldown_minutes :: int
  last_alert_times :: "string \<rightharpoonup> int"

definition new_alert_manager :: "int \<Rightarrow> int \<Rightarrow> int \<Rightarrow> alert_manager" where
  "new_alert_manager th win cd =
     \<lparr>alert_threshold = th, alert_window_minutes = win, cooldown_minutes = cd,
      last_alert_times = Map.empty\<rparr>"

text \<open>The length of \<open>m\<close> minutes in microseconds.\<close>

definition minutes :: "int \<Rightarrow> int" where
  "minutes m = m * 60000000"

text \<open>Decimal digits of an integer, for the messages.\<close>

fun str_nat :: "nat \<Rightarrow> string" where
  "str_nat n =
     (if n < 10 then [char_of (48 + n)] else str_nat (n div 10) @ [char_of (48 + n mod 10)])"

declare str_nat.simps [simp del]

definition str_int :: "int \<Rightarrow> string" where
  "str_int i = (if i < 0 then CHR ''-'' # str_nat (nat (- i)) else str_nat (nat i))"

text \<open>\<open>employee_id or 'global'\<close>\<close>

definition scope_name :: "string option \<Rightarrow> string" where
  "scope_name employee_id = (if truthy employee_id then the employee_id else ''global'')"

text \<open>The keys of the cooldown entries, as the two checks build them.\<close>

definition high_stress_key :: "string option \<Rightarrow> string" where
  "high_stress_key employee_id = ''high_stress_'' @ scope_name employee_id"

definition fatigue_key :: "string option \<Rightarrow> string" where
  "fatigue_key employee_id = ''fatigue_'' @ scope_name employee_id"

definition can_generate_alert :: "alert_manager \<Rightarrow> string \<Rightarrow> int \<Rightarrow> bool" where
  "can_generate_alert am alert_key now =
     (case last_alert_times am alert_key of
        None \<Rightarrow> True
      | Some last_time \<Rightarrow>
          (let elapsed = real_of_int (now - last_time) / 1000000 / 60
           in real_of_int (cooldown_minutes am) \<le> elapsed))"

text \<open>
  \<open>_create_high_stress_alert\<close>. Every detection it is given has a stress level above
  0.7, so the filter of the sum keeps all of them. An empty list divides by zero. The
  messages are written without their accents.
\<close>

definition create_high_stress_alert ::
  "alert_manager \<Rightarrow> string option \<Rightarrow> detection_event list \<Rightarrow> int \<Rightarrow> error + alert" where
  "create_high_stress_alert am employee_id stress_detections now =
     (if length stress_detections = 0 then Inl ZeroDivisionError
      else
        (let avg_stress =
               sum_list (map (\<lambda>d. the (d_stress_level d))
                           (filter (\<lambda>d. d_stress_level d \<noteq> None \<and> d_stress_level d \<noteq> Some 0)
                              stress_detections))
               / real (length stress_detections);
             severity = (if 0.8 < avg_stress then HIGH
                         else if 0.6 < avg_stress then MEDIUM else LOW);
             message =
               (if truthy employee_id
                then ''Empleado '' @ the employee_id
                       @ '' muestra niveles altos de estres prolongado''
                else ''Se detectaron '' @ str_nat (length stress_detections)
                       @ '' eventos de estres alto en ''
                       @ str_int (alert_window_minutes am) @ '' minutos'')
         in Inr \<lparr>alert_id = 0, a_employee_id = employee_id,
                 a_alert_type = HIGH_STRESS_PROLONGED, a_severity = severity,
                 a_stress_level = avg_stress, a_timestamp = now, a_status = PENDING,
                 a_message = message, a_resolved_at = None, a_resolved_by = None\<rparr>))"

text \<open>
  The clock readings of \<open>_check_fatigue\<close>, in the order of its calls: \<open>time.time()\<close> in
  \<open>get_emotion_distribution\<close>, then \<open>datetime.now()\<close> in the cooldown check, in the
  alert's timestamp and in the cooldown entry.
\<close>

record fatigue_clock =
  fc_time :: real
  fc_check :: int
  fc_stamp :: int
  fc_fired :: int

definition check_fatigue ::
  "alert_manager \<Rightarrow> database \<Rightarrow> stress_calculator \<Rightarrow> string option \<Rightarrow> fatigue_clock \<Rightarrow> bool
     \<Rightarrow> alert option \<times> alert_manager \<times> database" where
  "check_fatigue am db sc employee_id clk insert_ok =
     (let distribution = get_emotion_distribution sc employee_id 1 (fc_time clk);
          fatigue_count = dict_get distribution ''fatigue'' 0;
          neutral_count = dict_get distribution ''neutral'' 0
      in if 15 \<le> fatigue_count \<or> 20 \<le> fatigue_count + neutral_count
         then
           (let alert_key = fatigue_key employee_id
            in if can_generate_alert am alert_key (fc_check clk)
               then
                 (let a = \<lparr>alert_id = 0, a_employee_id = employee_id,
                           a_alert_type = FATIGUE_DETECTED, a_severity = MEDIUM,
                           a_stress_level = 0.5, a_timestamp = fc_stamp clk,
                           a_status = PENDING,
                           a_message = ''Se detecto fatiga en ''
                             @ (if truthy employee_id then ''empleado '' @ the employee_id
                                else ''multiples personas''),
                           a_resolved_at = None, a_resolved_by = None\<rparr>
                  in case add_alert db a insert_ok of
                       (Some new_id, db') \<Rightarrow>
                         if new_id \<noteq> 0
                         then (Some (a\<lparr>alert_id := new_id\<rparr>),
                               am\<lparr>last_alert_times :=
                                    (last_alert_times am)(alert_key \<mapsto> fc_fired clk)\<rparr>,
                               db')
                         else (None, am, db')
                     | (None, db') \<Rightarrow> (None, am, db'))
               else (None, am, db))
         else (None, am, db))"

text \<open>
  The clock readings of \<open>check_and_generate_alerts\<close>: the start of the window, the
  cooldown check, the alert's timestamp, the cooldown entry, then those of the fatigue
  check.
\<close>

record alert_clock =
  ac_window :: int
  ac_check :: int
  ac_stamp :: int
  ac_fired :: int
  ac_fatigue :: fatigue_clock

definition stress_detections_of :: "detection_event list \<Rightarrow> detection_event list" where
  "stress_detections_of detections =
     filter (\<lambda>d. case d_stress_level d of None \<Rightarrow> False | Some l \<Rightarrow> l \<noteq> 0 \<and> 0.7 < l)
       detections"

definition check_and_generate_alerts ::
  "alert_manager \<Rightarrow> database \<Rightarrow> stress_calculator \<Rightarrow> string option \<Rightarrow> alert_clock
     \<Rightarrow> bool \<Rightarrow> bool \<Rightarrow> error + (alert list \<times> alert_manager \<times> database)" where
  "check_and_generate_alerts am db sc employee_id clk stress_insert_ok fatigue_insert_ok =
     (let window_start = ac_window clk - minutes (alert_window_minutes am);
          detections = get_detections db employee_id (Some window_start) None 1000;
          stress_detections = stress_detections_of detections;
          alert_key = high_stress_key employee_id;
          first =
            (if alert_threshold am \<le> int (length stress_detections)
                \<and> can_generate_alert am alert_key (ac_check clk)
             then
               (case create_high_stress_alert am employee_id stress_detections
                       (ac_stamp clk) of
                  Inl err \<Rightarrow> Inl err
                | Inr a \<Rightarrow>
                    (case add_alert db a stress_insert_ok of
                       (Some new_id, db') \<Rightarrow>
                         if new_id \<noteq> 0
                         then Inr ([a\<lparr>alert_id := new_id\<rparr>],
                                   am\<lparr>last_alert_times :=
                                        (last_alert_times am)(alert_key \<mapsto> ac_fired clk)\<rparr>,
                                   db')
                         else Inr ([], am, db')
                     | (None, db') \<Rightarrow> Inr ([], am, db')))
             else Inr ([], am, db))
      in case first of
           Inl err \<Rightarrow> Inl err
         | Inr (generated, am1, db1) \<Rightarrow>
             (case check_fatigue am1 db1 sc employee_id (ac_fatigue clk) fatigue_insert_ok of
                (Some fatigue_alert, am2, db2) \<Rightarrow> Inr (generated @ [fatigue_alert], am2, db2)
              | (None, am2, db2) \<Rightarrow> Inr (generated, am2, db2)))"

definition acknowledge_alert ::
  "database \<Rightarrow> nat \<Rightarrow> string \<Rightarrow> int \<Rightarrow> bool \<Rightarrow> bool \<times> database" where
  "acknowledge_alert db aid user_id now update_ok =
     update_alert_status db aid ACKNOWLEDGED (Some user_id) now update_ok"

definition resolve_alert ::
  "database \<Rightarrow> nat \<Rightarrow> string \<Rightarrow> int \<Rightarrow> bool \<Rightarrow> bool \<times> database" where
  "resolve_alert db aid user_id now update_ok =
     update_alert_status db aid RESOLVED (Some user_id) now update_ok"

definition get_pending_alerts :: "database \<Rightarrow> nat \<Rightarrow> alert list" where
  "get_pending_alerts db limit = get_alerts db (Some PENDING) None limit"

text \<open>
  The conditions the two checks test before they look at the cooldown, and the detections
  the first one counts.
\<close>

definition recent_stress_detections ::
  "alert_manager \<Rightarrow> database \<Rightarrow> string option \<Rightarrow> int \<Rightarrow> detection_event list" where
  "recent_stress_detections am db employee_id now =
     stress_detections_of
       (get_detections db employee_id (Some (now - minutes (alert_window_minutes am)))
          None 1000)"

definition high_stress_condition ::
  "alert_manager \<Rightarrow> database \<Rightarrow> string option \<Rightarrow> int \<Rightarrow> bool" where
  "high_stress_condition am db employee_id now =
     (alert_threshold am \<le> int (length (recent_stress_detections am db employee_id now)))"

definition fatigue_condition :: "stress_calculator \<Rightarrow> string option \<Rightarrow> real \<Rightarrow> bool" where
  "fatigue_condition sc employee_id now =
     (let distribution = get_emotion_distribution sc employee_id 1 now
      in 15 \<le> dict_get distribution ''fatigue'' 0
         \<or> 20 \<le> dict_get distribution ''fatigue'' 0 + dict_get distribution ''neutral'' 0)"

text \<open>
  The cooldown key under which the manager files an alert it has generated. It generates
  no anomaly alerts.
\<close>

definition alert_key :: "alert \<Rightarrow> string option" where
  "alert_key a =
     (case a_alert_type a of
        HIGH_STRESS_PROLONGED \<Rightarrow> Some (high_stress_key (a_employee_id a))
      | FATIGUE_DETECTED \<Rightarrow> Some (fatigue_key (a_employee_id a))
      | ANOMALY_DETECTED \<Rightarrow> None)"



section \<open>ReportGenerator (core/services/report_generator.py)\<close>

record report_generator =
  report_interval_minutes :: int

text \<open>
  The iteration order of a Python \<open>set\<close> of strings is not fixed by the language. The
  functions that iterate over one take the order as a parameter \<open>set_iter\<close>, which maps
  the list the set is built from to the list of its elements in iteration order.
\<close>

definition opt_or :: "string option \<Rightarrow> string \<Rightarrow> string" where
  "opt_or v dflt = (if truthy v then the v else dflt)"

definition get_employee_details ::
  "(string list \<Rightarrow> string list) \<Rightarrow> string list \<Rightarrow> detection_event list
     \<Rightarrow> (string \<times> employee_detail) list" where
  "get_employee_details set_iter employee_ids detections =
     foldl (\<lambda>details employee_id.
        (let employee_detections =
               filter (\<lambda>d. d_employee_id d = Some employee_id) detections
         in if employee_detections = [] then details
            else
              (let stress_levels =
                     map (\<lambda>d. the (d_stress_level d))
                       (filter (\<lambda>d. d_stress_level d \<noteq> None \<and> d_stress_level d \<noteq> Some 0)
                          employee_detections);
                   emotions =
                     map (\<lambda>d. the (d_emotion d))
                       (filter (\<lambda>d. truthy (d_emotion d)) employee_detections);
                   predominant_emotion =
                     (case set_iter emotions of
                        [] \<Rightarrow> ''unknown''
                      | x # xs \<Rightarrow> max_by (count_list emotions) x xs)
               in AList.update employee_id
                    \<lparr>ed_detection_count = length employee_detections,
                     ed_avg_stress_level =
                       (if stress_levels = [] then 0
                        else sum_list stress_levels / real (length stress_levels)),
                     ed_predominant_emotion = predominant_emotion\<rparr>
                    details)))
       [] employee_ids"

text \<open>
  \<open>generate_report\<close>: \<open>now\<close> is the one reading of the clock; the flag says whether the
  \<open>INSERT\<close> of \<open>_save_report\<close> went through (its failure is caught and only printed).
\<close>

definition generate_report ::
  "report_generator \<Rightarrow> database \<Rightarrow> (string list \<Rightarrow> string list) \<Rightarrow> int \<Rightarrow> bool
     \<Rightarrow> report option \<times> database" where
  "generate_report rg db set_iter now insert_ok =
     (let end_time = now;
          start_time = end_time - minutes (report_interval_minutes rg);
          detections = get_detections db None (Some start_time) (Some end_time) 10000
      in if detections = [] then (None, db)
         else
           (let total_detections = length detections;
                employees_detected =
                  set_iter (map (\<lambda>d. the (d_employee_id d))
                              (filter (\<lambda>d. truthy (d_employee_id d)) detections));
                stress_levels =
                  map (\<lambda>d. the (d_stress_level d))
                    (filter (\<lambda>d. d_stress_level d \<noteq> None) detections);
                avg_stress_level =
                  (if stress_levels = [] then 0
                   else sum_list stress_levels / real (length stress_levels));
                emotion_distribution =
                  foldl count_emotion [] (map (\<lambda>d. opt_or (d_emotion d) ''unknown'') detections);
                alerts_in_period =
                  filter (\<lambda>a. start_time \<le> a_timestamp a \<and> a_timestamp a \<le> end_time)
                    (get_alerts db None None 1000);
                report_data =
                  \<lparr>r_timestamp = end_time, r_period_start = start_time,
                   r_period_end = end_time, r_total_detections = total_detections,
                   r_employees_detected = length employees_detected,
                   r_avg_stress_level = py_round avg_stress_level 2,
                   r_emotion_distribution = emotion_distribution,
                   r_alerts_generated = length alerts_in_period,
                   r_employee_details =
                     get_employee_details set_iter employees_detected detections\<rparr>
            in (Some report_data,
                if insert_ok then db\<lparr>reports := reports db @ [report_data]\<rparr> else db)))"

section \<open>Example data\<close>

definition sample :: "string \<Rightarrow> emotion_entry" where
  "sample e = \<lparr>emotion = e, timestamp = 0, confidence = 1\<rparr>"

definition calc_with :: "emotion_entry list \<Rightarrow> stress_calculator" where
  "calc_with h = (new_stress_calculator 100 30)\<lparr>global_history := h\<rparr>"

definition empty_db :: database where
  "empty_db = \<lparr>detection_events = [], alerts = [], reports = []\<rparr>"

definition fatigue_alert_E1 :: alert where
  "fatigue_alert_E1 =
     \<lparr>alert_id = 0, a_employee_id = Some ''E1'', a_alert_type = FATIGUE_DETECTED,
      a_severity = MEDIUM, a_stress_level = 0.5, a_timestamp = 10, a_status = PENDING,
      a_message = ''Se detecto fatiga en empleado E1'', a_resolved_at = None,
      a_resolved_by = None\<rparr>"

text \<open>A database holding one pending alert, with key 1.\<close>

definition db_one_alert :: database where
  "db_one_alert = snd (add_alert empty_db fatigue_alert_E1 True)"

text \<open>
  Ten detections of subject \<open>E1\<close> with stress level 0.9, a manager and a calculator with
  the default settings, and a clock whose readings during one call are all \<open>t\<close>.
\<close>

definition high_detection :: "nat \<Rightarrow> detection_event" where
  "high_detection i =
     \<lparr>d_detection_id = i, d_employee_id = Some ''E1'', d_timestamp = int i,
      d_emotion = Some ''angry'', d_confidence = 0.9, d_stress_level = Some 0.9\<rparr>"

definition db_ten_high :: database where
  "db_ten_high = empty_db\<lparr>detection_events := map high_detection [1..<11]\<rparr>"

definition default_manager :: alert_manager where
  "default_manager = new_alert_manager 10 15 60"

definition default_calculator :: stress_calculator where
  "default_calculator = new_stress_calculator 100 30"

definition clock_at :: "int \<Rightarrow> alert_clock" where
  "clock_at t =
     \<lparr>ac_window = t, ac_check = t, ac_stamp = t, ac_fired = t,
      ac_fatigue = \<lparr>fc_time = real_of_int t / 1000000, fc_check = t, fc_stamp = t,
                    fc_fired = t\<rparr>\<rparr>"

text \<open>The default manager after a high-stress alert for \<open>E1\<close> has fired at time 100.\<close>

definition fired_manager :: alert_manager where
  "fired_manager =
     default_manager\<lparr>last_alert_times :=
       (last_alert_times default_manager)(high_stress_key (Some ''E1'') \<mapsto> 100)\<rparr>"


text \<open>The alert the first call for \<open>E1\<close> at time 100 returns.\<close>

definition first_alert :: alert where
  "first_alert =
     \<lparr>alert_id = 1, a_employee_id = Some ''E1'', a_alert_type = HIGH_STRESS_PROLONGED,
      a_severity = HIGH, a_stress_level = 0.9, a_timestamp = 100, a_status = PENDING,
      a_message = ''Empleado E1 muestra niveles altos de estres prolongado'',
      a_resolved_at = None, a_resolved_by = None\<rparr>"





section \<open>Properties of the stress index\<close>

subsection \<open>Rounding\<close>

lemma round_half_even_mono:
  assumes "x \<le> y"
  shows "round_half_even x \<le> round_half_even y"
proof (cases "\<lfloor>x\<rfloor> = \<lfloor>y\<rfloor>")
  case True
  then show ?thesis
    using assms by (auto simp: round_half_even_def Let_def)
next
  case False
  with assms have lt: "\<lfloor>x\<rfloor> + 1 \<le> \<lfloor>y\<rfloor>"
    using floor_mono [of x y] by linarith
  have a: "round_half_even x \<le> \<lfloor>x\<rfloor> + 1"
    by (simp add: round_half_even_def Let_def)
  have b: "\<lfloor>y\<rfloor> \<le> round_half_even y"
    by (simp add: round_half_even_def Let_def)
  from a b lt show ?thesis by linarith
qed

lemma round_half_even_of_int: "round_half_even (of_int k) = k"
  by (simp add: round_half_even_def Let_def)

lemma py_round_mono:
  assumes "x \<le> y"
  shows "py_round x nd \<le> py_round y nd"
proof -
  have "x * 10 ^ nd \<le> y * 10 ^ nd"
    using assms by (simp add: mult_right_mono)
  then have "round_half_even (x * 10 ^ nd) \<le> round_half_even (y * 10 ^ nd)"
    by (rule round_half_even_mono)
  then have "(of_int (round_half_even (x * 10 ^ nd)) :: real)
      \<le> of_int (round_half_even (y * 10 ^ nd))"
    by simp
  then show ?thesis
    unfolding py_round_def by (rule divide_right_mono) simp
qed

lemma py_round_0: "py_round 0 nd = 0"
  using round_half_even_of_int [of 0] by (simp add: py_round_def)

lemma py_round_100: "py_round 100 2 = 100"
  using round_half_even_of_int [of 10000] by (simp add: py_round_def)


subsection \<open>The window and the count\<close>

lemma recent_emotions_pos:
  "0 < w \<Longrightarrow> recent_emotions h w = drop (length h - nat w) h"
  by (simp add: recent_emotions_def slice_from_def nat_diff_distrib')

lemma negative_count_le: "negative_count es \<le> length es"
  by (simp add: negative_count_def)


lemma calculate_stress_index_short:
  "length (select_history sc e) < 5 \<Longrightarrow> calculate_stress_index sc e window = 0"
  by (simp add: calculate_stress_index_def Let_def)



lemma calculate_stress_index_range:
  "0 \<le> calculate_stress_index sc e window \<and> calculate_stress_index sc e window \<le> 100"
proof -
  have b: "0 \<le> py_round (real (negative_count r) / real (length r) * 100) 2
         \<and> py_round (real (negative_count r) / real (length r) * 100) 2 \<le> 100" for r
  proof -
    let ?x = "real (negative_count r) / real (length r) * 100"
    have "?x \<le> 100"
      using negative_count_le [of r]
      by (cases "length r = 0") (simp_all add: divide_le_eq)
    moreover have "0 \<le> ?x" by simp
    ultimately show ?thesis
      using py_round_mono [of 0 ?x 2] py_round_mono [of ?x 100 2]
      by (simp add: py_round_0 py_round_100)
  qed
  show ?thesis
    using b by (simp add: calculate_stress_index_def Let_def)
qed

lemma calculate_stress_index_mono:
  assumes "5 \<le> length (select_history sc2 e2) \<longrightarrow> 5 \<le> length (select_history sc1 e1)"
    and "length (recent_emotions (select_history sc1 e1) (effective_window sc1 w1)) =
         length (recent_emotions (select_history sc2 e2) (effective_window sc2 w2))"
    and "negative_count (recent_emotions (select_history sc2 e2) (effective_window sc2 w2))
         \<le> negative_count (recent_emotions (select_history sc1 e1) (effective_window sc1 w1))"
  shows "calculate_stress_index sc2 e2 w2 \<le> calculate_stress_index sc1 e1 w1"
proof (cases "5 \<le> length (select_history sc2 e2)")
  case False
  then have "calculate_stress_index sc2 e2 w2 = 0"
    by (simp add: calculate_stress_index_short)
  then show ?thesis using calculate_stress_index_range [of sc1 e1 w1] by simp
next
  case True
  with assms(1) have g: "5 \<le> length (select_history sc1 e1)" by simp
  let ?r1 = "recent_emotions (select_history sc1 e1) (effective_window sc1 w1)"
  let ?r2 = "recent_emotions (select_history sc2 e2) (effective_window sc2 w2)"
  have le: "py_round (real (negative_count ?r2) / real (length ?r2) * 100) 2
      \<le> py_round (real (negative_count ?r1) / real (length ?r1) * 100) 2"
  proof (rule py_round_mono)
    show "real (negative_count ?r2) / real (length ?r2) * 100
      \<le> real (negative_count ?r1) / real (length ?r1) * 100"
      using assms(2,3) by (simp add: divide_right_mono)
  qed
  have c1: "calculate_stress_index sc1 e1 w1 =
      (if length ?r1 = 0 then 0
       else py_round (real (negative_count ?r1) / real (length ?r1) * 100) 2)"
    using g by (simp add: calculate_stress_index_def Let_def)
  have c2: "calculate_stress_index sc2 e2 w2 =
      (if length ?r2 = 0 then 0
       else py_round (real (negative_count ?r2) / real (length ?r2) * 100) 2)"
    using True by (simp add: calculate_stress_index_def Let_def)
  show ?thesis
  proof (cases "length ?r1 = 0")
    case True
    with assms(2) have "length ?r2 = 0" by simp
    with True c1 c2 show ?thesis by simp
  next
    case False
    with assms(2) have "length ?r2 \<noteq> 0" by simp
    with False c1 c2 le show ?thesis by simp
  qed
qed



lemma select_history_calc_with: "select_history (calc_with h) e = h"
  by (simp add: select_history_def calc_with_def new_stress_calculator_def)

lemma effective_window_calc_with:
  "effective_window (calc_with h) None = 30"
  "w \<noteq> 0 \<Longrightarrow> effective_window (calc_with h) (Some w) = w"
  by (simp_all add: effective_window_def calc_with_def new_stress_calculator_def)

subsection \<open>The value of the stress index\<close>



subsection \<open>Range and monotonicity\<close>

text \<open>
  C5, as the code has it. For every scope and every window the stress index lies
  in [0,100]. For two windows of equal sample count, the first holding at least as many
  negative samples as the second, the index of the first is not smaller than that of the
  second, provided the history of the first holds at least 5 samples whenever the history
  of the second does: below 5 samples the index is 0 whatever the window holds.
\<close>

theorem stress_index_range_monotone:
  "0 \<le> calculate_stress_index sc e window \<and> calculate_stress_index sc e window \<le> 100
   \<and> ((5 \<le> length (select_history sc2 e2) \<longrightarrow> 5 \<le> length (select_history sc1 e1))
        \<and> length (recent_emotions (select_history sc1 e1) (effective_window sc1 w1)) =
           length (recent_emotions (select_history sc2 e2) (effective_window sc2 w2))
        \<and> negative_count (recent_emotions (select_history sc2 e2) (effective_window sc2 w2))
           \<le> negative_count (recent_emotions (select_history sc1 e1) (effective_window sc1 w1))
        \<longrightarrow> calculate_stress_index sc2 e2 w2 \<le> calculate_stress_index sc1 e1 w1)"
  using calculate_stress_index_range [of sc e window]
    calculate_stress_index_mono [of sc2 e2 sc1 e1 w1 w2]
  by blast

theorem stress_index_range_monotone_witness:
  "5 \<le> length (select_history (calc_with (map sample
          [''sad'', ''sad'', ''happy'', ''sad'', ''happy''])) None)
   \<and> length (recent_emotions (select_history (calc_with (map sample
          [''sad'', ''sad'', ''happy'', ''sad'', ''happy''])) None) 4) =
      length (recent_emotions (select_history (calc_with (map sample
          [''happy'', ''happy'', ''happy'', ''happy'', ''sad''])) None) 4)
   \<and> negative_count (recent_emotions (select_history (calc_with (map sample
          [''happy'', ''happy'', ''happy'', ''happy'', ''sad''])) None) 4)
      \<le> negative_count (recent_emotions (select_history (calc_with (map sample
          [''sad'', ''sad'', ''happy'', ''sad'', ''happy''])) None) 4)
   \<and> calculate_stress_index (calc_with (map sample
          [''happy'', ''happy'', ''happy'', ''happy'', ''sad''])) None (Some 4)
      \<le> calculate_stress_index (calc_with (map sample
          [''sad'', ''sad'', ''happy'', ''sad'', ''happy''])) None (Some 4)
   \<and> 0 \<le> calculate_stress_index (calc_with (map sample
          [''sad'', ''sad'', ''happy'', ''sad'', ''happy''])) None (Some 4)
   \<and> calculate_stress_index (calc_with (map sample
          [''sad'', ''sad'', ''happy'', ''sad'', ''happy''])) None (Some 4) \<le> 100"
proof -
  let ?a = "calc_with (map sample [''sad'', ''sad'', ''happy'', ''sad'', ''happy''])"
  let ?b = "calc_with (map sample [''happy'', ''happy'', ''happy'', ''happy'', ''sad''])"
  have h: "5 \<le> length (select_history ?a None)"
    by (simp add: select_history_calc_with)
  have l: "length (recent_emotions (select_history ?a None) 4) =
      length (recent_emotions (select_history ?b None) 4)"
    by (simp add: select_history_calc_with recent_emotions_pos)
  have n: "negative_count (recent_emotions (select_history ?b None) 4)
      \<le> negative_count (recent_emotions (select_history ?a None) 4)"
    by (simp add: select_history_calc_with recent_emotions_pos negative_count_def
        NEGATIVE_EMOTIONS_def sample_def)
  have w: "effective_window ?a (Some 4) = 4" "effective_window ?b (Some 4) = 4"
    by (simp_all add: effective_window_calc_with)
  show ?thesis
    using stress_index_range_monotone [of ?a None "Some 4" ?b None ?a None "Some 4" "Some 4"]
      h l n
    by (simp only: w) simp
qed

text \<open>
  The claim without the proviso fails: two windows of 4 samples, the first with 4 negative
  samples and taken from a history of 4, the second with 1 negative sample and taken from
  a history of 5, have the indices 0 and 25.
\<close>

theorem stress_index_monotone_counterexample:
  "length (recent_emotions (select_history (calc_with (map sample
          [''sad'', ''sad'', ''sad'', ''sad''])) None)
        (effective_window (calc_with (map sample
          [''sad'', ''sad'', ''sad'', ''sad''])) (Some 4))) =
   length (recent_emotions (select_history (calc_with (map sample
          [''happy'', ''happy'', ''happy'', ''happy'', ''sad''])) None)
        (effective_window (calc_with (map sample
          [''happy'', ''happy'', ''happy'', ''happy'', ''sad''])) (Some 4)))
   \<and> negative_count (recent_emotions (select_history (calc_with (map sample
          [''happy'', ''happy'', ''happy'', ''happy'', ''sad''])) None)
        (effective_window (calc_with (map sample
          [''happy'', ''happy'', ''happy'', ''happy'', ''sad''])) (Some 4)))
      \<le> negative_count (recent_emotions (select_history (calc_with (map sample
          [''sad'', ''sad'', ''sad'', ''sad''])) None)
        (effective_window (calc_with (map sample
          [''sad'', ''sad'', ''sad'', ''sad''])) (Some 4)))
   \<and> calculate_stress_index (calc_with (map sample
          [''sad'', ''sad'', ''sad'', ''sad''])) None (Some 4) = 0
   \<and> calculate_stress_index (calc_with (map sample
          [''happy'', ''happy'', ''happy'', ''happy'', ''sad''])) None (Some 4) = 25
   \<and> calculate_stress_index (calc_with (map sample
          [''sad'', ''sad'', ''sad'', ''sad''])) None (Some 4)
      < calculate_stress_index (calc_with (map sample
          [''happy'', ''happy'', ''happy'', ''happy'', ''sad''])) None (Some 4)"
  by (simp add: calculate_stress_index_def select_history_calc_with
      effective_window_calc_with recent_emotions_pos negative_count_def
      NEGATIVE_EMOTIONS_def sample_def py_round_def round_half_even_def Let_def)

subsection \<open>Subjects without a history of their own\<close>

lemma add_emotion_dom:
  "dom (employee_histories (add_emotion sc emo eid conf now)) =
     dom (employee_histories sc) \<union> (if truthy eid then {the eid} else {})"
  by (simp add: add_emotion_def Let_def)

text \<open>
  Entries of \<open>employee_histories\<close> come from \<open>add_emotion\<close> only: after any sequence of
  observations, a subject has an entry exactly if it had one before or one of the
  observations carried its identifier.
\<close>

lemma observations_dom:
  "dom (employee_histories
          (foldl (\<lambda>s (emo, eid, conf, now). add_emotion s emo eid conf now) sc obs)) =
     dom (employee_histories sc)
       \<union> {the eid |eid. eid \<in> set (map (\<lambda>(emo, eid, conf, now). eid) obs) \<and> truthy eid}"
proof (induction obs arbitrary: sc)
  case Nil
  show ?case by simp
next
  case (Cons ob obs)
  obtain emo eid conf now where ob: "ob = (emo, eid, conf, now)"
    by (cases ob) auto
  show ?case
    unfolding ob by (simp add: Cons.IH add_emotion_dom) blast
qed



section \<open>Properties of the alert lifecycle\<close>

lemma update_alert_status_length:
  "length (alerts (snd (update_alert_status db aid st by now ok))) = length (alerts db)"
  by (simp add: update_alert_status_def Let_def)

lemma update_alert_status_nth:
  assumes "i < length (alerts db)"
  shows "alerts (snd (update_alert_status db aid st by now True)) ! i =
     (if alert_id (alerts db ! i) = aid
      then (alerts db ! i)\<lparr>a_status := st,
             a_resolved_at := (if st = RESOLVED then Some now else None),
             a_resolved_by := by\<rparr>
      else alerts db ! i)"
  using assms by (simp add: update_alert_status_def Let_def)

lemma update_alert_status_other_tables:
  "detection_events (snd (update_alert_status db aid st by now ok)) = detection_events db
   \<and> reports (snd (update_alert_status db aid st by now ok)) = reports db"
  by (simp add: update_alert_status_def Let_def)

text \<open>
  C3, as the code has it. \<open>acknowledge\<close> and \<open>resolve\<close> are one unconditional
  update of the alert with the given key: they do not look at its present status. When
  the update goes through, both return success, no alert is added or removed, alerts with
  another key and the other tables are unchanged, and the alert with the key gets the new
  status whatever its status was: \<open>resolve\<close> sets \<open>resolved\<close> with \<open>resolved_at = now\<close>
  and \<open>resolved_by = actor\<close>; \<open>acknowledge\<close> sets \<open>acknowledged\<close>, clears \<open>resolved_at\<close>
  and writes the actor to \<open>resolved_by\<close>. When the update fails, both return failure and
  change nothing.
\<close>

theorem alert_status_transitions:
  "fst (resolve_alert db aid actor now True)
   \<and> fst (acknowledge_alert db aid actor now True)
   \<and> length (alerts (snd (resolve_alert db aid actor now True))) = length (alerts db)
   \<and> length (alerts (snd (acknowledge_alert db aid actor now True))) = length (alerts db)
   \<and> (\<forall>i < length (alerts db).
         alerts (snd (resolve_alert db aid actor now True)) ! i =
           (if alert_id (alerts db ! i) = aid
            then (alerts db ! i)\<lparr>a_status := RESOLVED, a_resolved_at := Some now,
                   a_resolved_by := Some actor\<rparr>
            else alerts db ! i)
         \<and> alerts (snd (acknowledge_alert db aid actor now True)) ! i =
           (if alert_id (alerts db ! i) = aid
            then (alerts db ! i)\<lparr>a_status := ACKNOWLEDGED, a_resolved_at := None,
                   a_resolved_by := Some actor\<rparr>
            else alerts db ! i))
   \<and> detection_events (snd (resolve_alert db aid actor now True)) = detection_events db
   \<and> reports (snd (resolve_alert db aid actor now True)) = reports db
   \<and> detection_events (snd (acknowledge_alert db aid actor now True)) = detection_events db
   \<and> reports (snd (acknowledge_alert db aid actor now True)) = reports db
   \<and> resolve_alert db aid actor now False = (False, db)
   \<and> acknowledge_alert db aid actor now False = (False, db)"
proof -
  have n: "\<forall>i < length (alerts db).
         alerts (snd (resolve_alert db aid actor now True)) ! i =
           (if alert_id (alerts db ! i) = aid
            then (alerts db ! i)\<lparr>a_status := RESOLVED, a_resolved_at := Some now,
                   a_resolved_by := Some actor\<rparr>
            else alerts db ! i)
         \<and> alerts (snd (acknowledge_alert db aid actor now True)) ! i =
           (if alert_id (alerts db ! i) = aid
            then (alerts db ! i)\<lparr>a_status := ACKNOWLEDGED, a_resolved_at := None,
                   a_resolved_by := Some actor\<rparr>
            else alerts db ! i)"
    by (simp add: resolve_alert_def acknowledge_alert_def update_alert_status_nth)
  have f: "fst (resolve_alert db aid actor now True)"
    "fst (acknowledge_alert db aid actor now True)"
    "resolve_alert db aid actor now False = (False, db)"
    "acknowledge_alert db aid actor now False = (False, db)"
    by (simp_all add: resolve_alert_def acknowledge_alert_def update_alert_status_def Let_def)
  have l: "length (alerts (snd (resolve_alert db aid actor now True))) = length (alerts db)"
    "length (alerts (snd (acknowledge_alert db aid actor now True))) = length (alerts db)"
    by (simp_all add: resolve_alert_def acknowledge_alert_def update_alert_status_length)
  have t: "detection_events (snd (resolve_alert db aid actor now True)) = detection_events db"
    "reports (snd (resolve_alert db aid actor now True)) = reports db"
    "detection_events (snd (acknowledge_alert db aid actor now True)) = detection_events db"
    "reports (snd (acknowledge_alert db aid actor now True)) = reports db"
    by (simp_all add: resolve_alert_def acknowledge_alert_def update_alert_status_other_tables)
  from n f l t show ?thesis by simp
qed

lemma db_one_alert_alerts:
  "alerts db_one_alert = [fatigue_alert_E1\<lparr>alert_id := 1\<rparr>]"
  by (simp add: db_one_alert_def add_alert_def next_alert_id_def empty_db_def
      fatigue_alert_E1_def)

text \<open>
  A pending alert acknowledged by \<open>ana\<close> and then resolved by \<open>bob\<close> at time 200 ends
  resolved, with \<open>resolved_at = 200\<close> and \<open>resolved_by = bob\<close>.
\<close>

theorem alert_status_transitions_witness:
  "(0::nat) < length (alerts db_one_alert)
   \<and> a_status (alerts db_one_alert ! 0) = PENDING
   \<and> a_status (alerts (snd (acknowledge_alert db_one_alert 1 ''ana'' 100 True)) ! 0)
       = ACKNOWLEDGED
   \<and> alerts (snd (resolve_alert (snd (acknowledge_alert db_one_alert 1 ''ana'' 100 True))
                1 ''bob'' 200 True)) ! 0
       = fatigue_alert_E1\<lparr>alert_id := 1, a_status := RESOLVED, a_resolved_at := Some 200,
           a_resolved_by := Some ''bob''\<rparr>"
proof -
  let ?d1 = "snd (acknowledge_alert db_one_alert 1 ''ana'' 100 True)"
  have l0: "(0::nat) < length (alerts db_one_alert)"
    by (simp add: db_one_alert_alerts)
  have l1: "(0::nat) < length (alerts ?d1)"
    using alert_status_transitions [of db_one_alert 1 "''ana''" 100] l0 by simp
  have s1: "a_status (alerts ?d1 ! 0) = ACKNOWLEDGED"
    using alert_status_transitions [of db_one_alert 1 "''ana''" 100] l0
    by (simp add: db_one_alert_alerts fatigue_alert_E1_def)
  have i1: "alert_id (alerts ?d1 ! 0) = 1"
    by (simp add: acknowledge_alert_def update_alert_status_def db_one_alert_alerts)
  have v1: "alerts ?d1 ! 0 = fatigue_alert_E1\<lparr>alert_id := 1, a_status := ACKNOWLEDGED,
      a_resolved_at := None, a_resolved_by := Some ''ana''\<rparr>"
    by (simp add: acknowledge_alert_def update_alert_status_def db_one_alert_alerts)
  have "alerts (snd (resolve_alert ?d1 1 ''bob'' 200 True)) ! 0 =
      (alerts ?d1 ! 0)\<lparr>a_status := RESOLVED, a_resolved_at := Some 200,
        a_resolved_by := Some ''bob''\<rparr>"
    using alert_status_transitions [of ?d1 1 "''bob''" 200] l1 i1 by presburger
  then have s2: "alerts (snd (resolve_alert ?d1 1 ''bob'' 200 True)) ! 0 =
      fatigue_alert_E1\<lparr>alert_id := 1, a_status := RESOLVED, a_resolved_at := Some 200,
        a_resolved_by := Some ''bob''\<rparr>"
    by (simp only: v1) (simp add: fatigue_alert_E1_def)
  have p0: "a_status (alerts db_one_alert ! 0) = PENDING"
    by (simp add: db_one_alert_alerts fatigue_alert_E1_def)
  from l0 p0 s1 s2 show ?thesis by blast
qed

text \<open>
  The lifecycle of the claim is not enforced. An alert resolved by \<open>ana\<close> at time 100 is
  changed by a second resolution (by \<open>bob\<close> at time 200), and leaves \<open>resolved\<close> when it
  is acknowledged afterwards, which also erases \<open>resolved_at\<close>.
\<close>

theorem alert_lifecycle_counterexample:
  "a_status (alerts (snd (resolve_alert db_one_alert 1 ''ana'' 100 True)) ! 0) = RESOLVED
   \<and> a_resolved_at (alerts (snd (resolve_alert db_one_alert 1 ''ana'' 100 True)) ! 0)
       = Some 100
   \<and> snd (resolve_alert (snd (resolve_alert db_one_alert 1 ''ana'' 100 True))
            1 ''bob'' 200 True)
       \<noteq> snd (resolve_alert db_one_alert 1 ''ana'' 100 True)
   \<and> a_resolved_at (alerts (snd (resolve_alert
         (snd (resolve_alert db_one_alert 1 ''ana'' 100 True)) 1 ''bob'' 200 True)) ! 0)
       = Some 200
   \<and> a_resolved_by (alerts (snd (resolve_alert
         (snd (resolve_alert db_one_alert 1 ''ana'' 100 True)) 1 ''bob'' 200 True)) ! 0)
       = Some ''bob''
   \<and> fst (acknowledge_alert (snd (resolve_alert db_one_alert 1 ''ana'' 100 True))
            1 ''bob'' 200 True)
   \<and> a_status (alerts (snd (acknowledge_alert
         (snd (resolve_alert db_one_alert 1 ''ana'' 100 True)) 1 ''bob'' 200 True)) ! 0)
       = ACKNOWLEDGED
   \<and> a_resolved_at (alerts (snd (acknowledge_alert
         (snd (resolve_alert db_one_alert 1 ''ana'' 100 True)) 1 ''bob'' 200 True)) ! 0)
       = None"
proof -
  have r: "snd (resolve_alert db_one_alert 1 ''ana'' 100 True) =
      empty_db\<lparr>alerts := [fatigue_alert_E1\<lparr>alert_id := 1, a_status := RESOLVED,
        a_resolved_at := Some 100, a_resolved_by := Some ''ana''\<rparr>]\<rparr>"
    by (simp add: resolve_alert_def update_alert_status_def db_one_alert_def add_alert_def
        next_alert_id_def empty_db_def fatigue_alert_E1_def)
  show ?thesis
    unfolding r
    by (simp add: resolve_alert_def acknowledge_alert_def update_alert_status_def
        empty_db_def fatigue_alert_E1_def)
qed

section \<open>Properties of the alert manager\<close>

subsection \<open>The cooldown test\<close>

lemma can_generate_alert_iff:
  "can_generate_alert am k now =
     (case last_alert_times am k of
        None \<Rightarrow> True
      | Some t \<Rightarrow> t + minutes (cooldown_minutes am) \<le> now)"
proof (cases "last_alert_times am k")
  case None
  then show ?thesis by (simp add: can_generate_alert_def)
next
  case (Some t)
  have "(real_of_int (cooldown_minutes am) \<le> real_of_int (now - t) / 1000000 / 60)
      = (real_of_int (cooldown_minutes am) * 60000000 \<le> real_of_int (now - t))"
    by (simp add: field_simps)
  also have "\<dots> = (cooldown_minutes am * 60000000 \<le> now - t)"
    by (metis of_int_le_iff of_int_mult of_int_numeral)
  also have "\<dots> = (t + minutes (cooldown_minutes am) \<le> now)"
    by (simp add: minutes_def) linarith
  finally show ?thesis
    using Some by (simp add: can_generate_alert_def Let_def)
qed

lemma can_generate_alert_cong:
  assumes "last_alert_times am' k = last_alert_times am k"
    and "cooldown_minutes am' = cooldown_minutes am"
  shows "can_generate_alert am' k now = can_generate_alert am k now"
  using assms by (simp add: can_generate_alert_iff split: option.splits)

lemma can_generate_alert_later:
  assumes "can_generate_alert am k now" and "now \<le> later"
  shows "can_generate_alert am k later"
  using assms by (simp add: can_generate_alert_iff split: option.splits)

lemma keys_differ: "high_stress_key e \<noteq> fatigue_key e'"
  by (simp add: high_stress_key_def fatigue_key_def)

subsection \<open>One call of the fatigue check\<close>

lemma next_alert_id_pos: "next_alert_id db \<noteq> 0"
  by (simp add: next_alert_id_def)

lemma check_fatigue_eq:
  "check_fatigue am db sc e clk ok =
     (if fatigue_condition sc e (fc_time clk)
         \<and> can_generate_alert am (fatigue_key e) (fc_check clk) \<and> ok
      then (Some \<lparr>alert_id = next_alert_id db, a_employee_id = e,
                  a_alert_type = FATIGUE_DETECTED, a_severity = MEDIUM,
                  a_stress_level = 0.5, a_timestamp = fc_stamp clk, a_status = PENDING,
                  a_message = ''Se detecto fatiga en ''
                    @ (if truthy e then ''empleado '' @ the e else ''multiples personas''),
                  a_resolved_at = None, a_resolved_by = None\<rparr>,
            am\<lparr>last_alert_times := (last_alert_times am)(fatigue_key e \<mapsto> fc_fired clk)\<rparr>,
            snd (add_alert db
                  \<lparr>alert_id = 0, a_employee_id = e,
                   a_alert_type = FATIGUE_DETECTED, a_severity = MEDIUM,
                   a_stress_level = 0.5, a_timestamp = fc_stamp clk, a_status = PENDING,
                   a_message = ''Se detecto fatiga en ''
                     @ (if truthy e then ''empleado '' @ the e else ''multiples personas''),
                   a_resolved_at = None, a_resolved_by = None\<rparr> True))
      else (None, am, db))"
  by (simp add: check_fatigue_def fatigue_condition_def Let_def add_alert_def
      next_alert_id_pos)

subsection \<open>One call of the high-stress check\<close>

lemma check_and_generate_alerts_eq:
  "check_and_generate_alerts am db sc e clk ok1 ok2 =
     (if high_stress_condition am db e (ac_window clk)
         \<and> can_generate_alert am (high_stress_key e) (ac_check clk)
      then
        (case create_high_stress_alert am e (recent_stress_detections am db e (ac_window clk))
                (ac_stamp clk) of
           Inl err \<Rightarrow> Inl err
         | Inr a \<Rightarrow>
             if ok1
             then (case check_fatigue
                          (am\<lparr>last_alert_times :=
                               (last_alert_times am)(high_stress_key e \<mapsto> ac_fired clk)\<rparr>)
                          (snd (add_alert db a True)) sc e (ac_fatigue clk) ok2 of
                     (r, am2, db2) \<Rightarrow>
                       Inr ([a\<lparr>alert_id := next_alert_id db\<rparr>]
                              @ (case r of None \<Rightarrow> [] | Some f \<Rightarrow> [f]), am2, db2))
             else (case check_fatigue am db sc e (ac_fatigue clk) ok2 of
                     (r, am2, db2) \<Rightarrow>
                       Inr (case r of None \<Rightarrow> [] | Some f \<Rightarrow> [f], am2, db2)))
      else (case check_fatigue am db sc e (ac_fatigue clk) ok2 of
              (r, am2, db2) \<Rightarrow> Inr (case r of None \<Rightarrow> [] | Some f \<Rightarrow> [f], am2, db2)))"
  by (simp add: check_and_generate_alerts_def high_stress_condition_def
      recent_stress_detections_def Let_def add_alert_def next_alert_id_pos
      split: sum.splits option.splits prod.splits)

lemma create_high_stress_alert_Inr:
  assumes "create_high_stress_alert am e ds now = Inr a"
  shows "a_alert_type a = HIGH_STRESS_PROLONGED \<and> a_employee_id a = e
    \<and> a_status a = PENDING \<and> a_timestamp a = now"
  using assms by (auto simp: create_high_stress_alert_def Let_def split: if_splits)

lemma create_high_stress_alert_nonempty:
  "ds \<noteq> [] \<Longrightarrow> \<exists>a. create_high_stress_alert am e ds now = Inr a"
  by (simp add: create_high_stress_alert_def Let_def)

lemma can_generate_alert_upd_other:
  "k \<noteq> k' \<Longrightarrow>
     can_generate_alert (am\<lparr>last_alert_times := (last_alert_times am)(k' \<mapsto> t)\<rparr>) k now
       = can_generate_alert am k now"
  by (simp add: can_generate_alert_iff split: option.splits)

text \<open>
  What one call does to the manager and which alerts it returns, in terms of the two
  decisions it takes: an alert is generated exactly when its condition holds, its
  cooldown test passes and its insertion goes through.
\<close>

lemma check_and_generate_alerts_step:
  assumes "check_and_generate_alerts am db sc e clk ok1 ok2 = Inr (gen, am', db')"
  defines "fh \<equiv> high_stress_condition am db e (ac_window clk)
             \<and> can_generate_alert am (high_stress_key e) (ac_check clk) \<and> ok1"
    and "ff \<equiv> fatigue_condition sc e (fc_time (ac_fatigue clk))
             \<and> can_generate_alert am (fatigue_key e) (fc_check (ac_fatigue clk)) \<and> ok2"
  shows "cooldown_minutes am' = cooldown_minutes am"
    and "last_alert_times am' =
           (\<lambda>k. if k = fatigue_key e \<and> ff then Some (fc_fired (ac_fatigue clk))
                else if k = high_stress_key e \<and> fh then Some (ac_fired clk)
                else last_alert_times am k)"
    and "\<forall>a \<in> set gen.
           (a_alert_type a = HIGH_STRESS_PROLONGED \<and> a_employee_id a = e \<and> fh)
           \<or> (a_alert_type a = FATIGUE_DETECTED \<and> a_employee_id a = e \<and> ff)"
    and "fh \<longrightarrow> (\<exists>a \<in> set gen. a_alert_type a = HIGH_STRESS_PROLONGED
                    \<and> a_employee_id a = e \<and> a_status a = PENDING)"
    and "ff \<longrightarrow> (\<exists>a \<in> set gen. a_alert_type a = FATIGUE_DETECTED
                    \<and> a_employee_id a = e \<and> a_status a = PENDING)"
proof -
  let ?hk = "high_stress_key e" and ?fk = "fatigue_key e"
  have kd: "?fk \<noteq> ?hk" using keys_differ [of e e] by simp
  let ?am1 = "am\<lparr>last_alert_times := (last_alert_times am)(?hk \<mapsto> ac_fired clk)\<rparr>"
  have cg: "can_generate_alert ?am1 ?fk t = can_generate_alert am ?fk t" for t
    using kd by (rule can_generate_alert_upd_other)
  note eq = assms(1) [unfolded check_and_generate_alerts_eq check_fatigue_eq]
  have cr: "a_alert_type a = HIGH_STRESS_PROLONGED \<and> a_employee_id a = e
      \<and> a_status a = PENDING"
    if "create_high_stress_alert am e (recent_stress_detections am db e (ac_window clk))
          (ac_stamp clk) = Inr a" for a
    using create_high_stress_alert_Inr [OF that] by simp
  show "cooldown_minutes am' = cooldown_minutes am"
    using eq by (auto split: if_splits sum.splits)
  show "last_alert_times am' =
           (\<lambda>k. if k = fatigue_key e \<and> ff then Some (fc_fired (ac_fatigue clk))
                else if k = high_stress_key e \<and> fh then Some (ac_fired clk)
                else last_alert_times am k)"
    using eq kd unfolding fh_def ff_def
    by (auto split: if_splits sum.splits simp: cg fun_eq_iff)
  show "\<forall>a \<in> set gen.
           (a_alert_type a = HIGH_STRESS_PROLONGED \<and> a_employee_id a = e \<and> fh)
           \<or> (a_alert_type a = FATIGUE_DETECTED \<and> a_employee_id a = e \<and> ff)"
    using eq cr unfolding fh_def ff_def
    by (auto split: if_splits sum.splits simp: cg)
  show "fh \<longrightarrow> (\<exists>a \<in> set gen. a_alert_type a = HIGH_STRESS_PROLONGED
                    \<and> a_employee_id a = e \<and> a_status a = PENDING)"
    using eq cr unfolding fh_def ff_def
    by (auto split: if_splits sum.splits simp: cg)
  show "ff \<longrightarrow> (\<exists>a \<in> set gen. a_alert_type a = FATIGUE_DETECTED
                    \<and> a_employee_id a = e \<and> a_status a = PENDING)"
    using eq unfolding fh_def ff_def
    by (auto split: if_splits sum.splits simp: cg)
qed

lemma check_and_generate_alerts_returns:
  assumes "0 < alert_threshold am \<or> recent_stress_detections am db e (ac_window clk) \<noteq> []"
  shows "\<exists>gen am' db'. check_and_generate_alerts am db sc e clk ok1 ok2 = Inr (gen, am', db')"
proof -
  let ?ds = "recent_stress_detections am db e (ac_window clk)"
  obtain r am2 db2 where f: "check_fatigue am db sc e (ac_fatigue clk) ok2 = (r, am2, db2)"
    by (cases "check_fatigue am db sc e (ac_fatigue clk) ok2") auto
  show ?thesis
  proof (cases "high_stress_condition am db e (ac_window clk)
      \<and> can_generate_alert am (high_stress_key e) (ac_check clk)")
    case False
    then show ?thesis
      using f by (auto simp: check_and_generate_alerts_eq)
  next
    case True
    then have "?ds \<noteq> []"
      using assms by (auto simp: high_stress_condition_def)
    then obtain a where a: "create_high_stress_alert am e ?ds (ac_stamp clk) = Inr a"
      using create_high_stress_alert_nonempty by blast
    obtain r1 am3 db3 where f1: "check_fatigue
        (am\<lparr>last_alert_times := (last_alert_times am)(high_stress_key e \<mapsto> ac_fired clk)\<rparr>)
        (snd (add_alert db a True)) sc e (ac_fatigue clk) ok2 = (r1, am3, db3)"
      by (metis prod_cases3)
    show ?thesis
      using True a f f1 by (auto simp: check_and_generate_alerts_eq)
  qed
qed

subsection \<open>The example calls\<close>

lemma example_condition:
  "high_stress_condition default_manager db_ten_high (Some ''E1'') 100"
  by code_simp

lemma example_detections:
  "recent_stress_detections default_manager db_ten_high (Some ''E1'') 100 \<noteq> []"
  by code_simp

lemma example_no_fatigue:
  "\<not> fatigue_condition default_calculator (Some ''E1'') (100 / 1000000)"
  by code_simp

lemma example_eligible: "can_generate_alert default_manager k t"
  by (simp add: can_generate_alert_def default_manager_def new_alert_manager_def)

lemma example_failed_call:
  "check_and_generate_alerts default_manager db_ten_high default_calculator
      (Some ''E1'') (clock_at 100) False False = Inr ([], default_manager, db_ten_high)"
proof -
  obtain a where a: "create_high_stress_alert default_manager (Some ''E1'')
      (recent_stress_detections default_manager db_ten_high (Some ''E1'') 100) 100 = Inr a"
    using create_high_stress_alert_nonempty [OF example_detections] by blast
  show ?thesis
    using example_condition example_no_fatigue a
    by (simp add: check_and_generate_alerts_eq check_fatigue_eq clock_at_def
        example_eligible)
qed

lemma example_first_call:
  "\<exists>a db'. check_and_generate_alerts default_manager db_ten_high default_calculator
      (Some ''E1'') (clock_at 100) True True = Inr ([a], fired_manager, db')"
proof -
  obtain a where a: "create_high_stress_alert default_manager (Some ''E1'')
      (recent_stress_detections default_manager db_ten_high (Some ''E1'') 100) 100 = Inr a"
    using create_high_stress_alert_nonempty [OF example_detections] by blast
  show ?thesis
    using example_condition example_no_fatigue a
    by (simp add: check_and_generate_alerts_eq check_fatigue_eq clock_at_def
        example_eligible fired_manager_def)
qed

lemma fired_manager_fields:
  "cooldown_minutes fired_manager = 60"
  "last_alert_times fired_manager (high_stress_key (Some ''E1'')) = Some 100"
  "last_alert_times default_manager k = None"
  "alert_threshold default_manager = 10"
  by (simp_all add: fired_manager_def default_manager_def new_alert_manager_def)

lemma example_created:
  "create_high_stress_alert default_manager (Some ''E1'')
      (recent_stress_detections default_manager db_ten_high (Some ''E1'') 100) 100
     = Inr (first_alert\<lparr>alert_id := 0\<rparr>)"
  by code_simp

lemma example_first_result:
  "check_and_generate_alerts default_manager db_ten_high default_calculator
      (Some ''E1'') (clock_at 100) True True
     = Inr ([first_alert], fired_manager, db_ten_high\<lparr>alerts := [first_alert]\<rparr>)"
proof -
  have n: "next_alert_id db_ten_high = 1"
    by (simp add: next_alert_id_def db_ten_high_def empty_db_def)
  have d: "snd (add_alert db_ten_high (first_alert\<lparr>alert_id := 0\<rparr>) True)
      = db_ten_high\<lparr>alerts := [first_alert]\<rparr>"
    by (simp add: add_alert_def next_alert_id_def db_ten_high_def empty_db_def first_alert_def)
  have i: "first_alert\<lparr>alert_id := 1\<rparr> = first_alert"
    by (simp add: first_alert_def)
  show ?thesis
    using example_condition example_no_fatigue
    by (simp add: check_and_generate_alerts_eq check_fatigue_eq clock_at_def
        example_eligible fired_manager_def example_created n d)
      (simp add: first_alert_def)
qed




subsection \<open>The cooldown\<close>








subsection \<open>A failed write leaves the cooldown entry alone\<close>

text \<open>
  C7. A call of \<open>check_and_generate_alerts\<close> returns whenever the alert
  threshold is positive. When the insertion of the high-stress alert fails, the call
  returns no high-stress alert and the cooldown entry of its key is as before, so the
  cooldown test on that key gives at every time what it gave before the call, and a key
  that was eligible stays eligible at every later time; the same holds for the fatigue
  alert and its key. An entry that a call changes belongs to one of the two keys of the
  call, the insertion for that key went through, and the entry is the clock reading taken
  after the insertion.
\<close>

theorem failed_write_keeps_cooldown:
  "(0 < alert_threshold am \<longrightarrow>
      (\<exists>r. check_and_generate_alerts am db sc e clk ok1 ok2 = Inr r))
   \<and> (check_and_generate_alerts am db sc e clk ok1 ok2 = Inr (gen, am', db') \<longrightarrow>
        (\<not> ok1 \<longrightarrow>
           last_alert_times am' (high_stress_key e) = last_alert_times am (high_stress_key e)
           \<and> (\<forall>a \<in> set gen. a_alert_type a \<noteq> HIGH_STRESS_PROLONGED)
           \<and> (\<forall>t. can_generate_alert am' (high_stress_key e) t =
                    can_generate_alert am (high_stress_key e) t)
           \<and> (\<forall>t. can_generate_alert am (high_stress_key e) (ac_check clk)
                    \<and> ac_check clk \<le> t \<longrightarrow> can_generate_alert am' (high_stress_key e) t))
        \<and> (\<not> ok2 \<longrightarrow>
           last_alert_times am' (fatigue_key e) = last_alert_times am (fatigue_key e)
           \<and> (\<forall>a \<in> set gen. a_alert_type a \<noteq> FATIGUE_DETECTED)
           \<and> (\<forall>t. can_generate_alert am' (fatigue_key e) t =
                    can_generate_alert am (fatigue_key e) t)
           \<and> (\<forall>t. can_generate_alert am (fatigue_key e) (fc_check (ac_fatigue clk))
                    \<and> fc_check (ac_fatigue clk) \<le> t \<longrightarrow>
                    can_generate_alert am' (fatigue_key e) t))
        \<and> (last_alert_times am' k \<noteq> last_alert_times am k \<longrightarrow>
             (k = high_stress_key e \<and> ok1
                \<and> last_alert_times am' k = Some (ac_fired clk))
             \<or> (k = fatigue_key e \<and> ok2
                \<and> last_alert_times am' k = Some (fc_fired (ac_fatigue clk)))))"
proof -
  have ret: "0 < alert_threshold am \<longrightarrow>
      (\<exists>r. check_and_generate_alerts am db sc e clk ok1 ok2 = Inr r)"
    using check_and_generate_alerts_returns [of am db e clk sc ok1 ok2] by auto
  have main: "(\<not> ok1 \<longrightarrow>
           last_alert_times am' (high_stress_key e) = last_alert_times am (high_stress_key e)
           \<and> (\<forall>a \<in> set gen. a_alert_type a \<noteq> HIGH_STRESS_PROLONGED)
           \<and> (\<forall>t. can_generate_alert am' (high_stress_key e) t =
                    can_generate_alert am (high_stress_key e) t)
           \<and> (\<forall>t. can_generate_alert am (high_stress_key e) (ac_check clk)
                    \<and> ac_check clk \<le> t \<longrightarrow> can_generate_alert am' (high_stress_key e) t))
        \<and> (\<not> ok2 \<longrightarrow>
           last_alert_times am' (fatigue_key e) = last_alert_times am (fatigue_key e)
           \<and> (\<forall>a \<in> set gen. a_alert_type a \<noteq> FATIGUE_DETECTED)
           \<and> (\<forall>t. can_generate_alert am' (fatigue_key e) t =
                    can_generate_alert am (fatigue_key e) t)
           \<and> (\<forall>t. can_generate_alert am (fatigue_key e) (fc_check (ac_fatigue clk))
                    \<and> fc_check (ac_fatigue clk) \<le> t \<longrightarrow>
                    can_generate_alert am' (fatigue_key e) t))
        \<and> (last_alert_times am' k \<noteq> last_alert_times am k \<longrightarrow>
             (k = high_stress_key e \<and> ok1
                \<and> last_alert_times am' k = Some (ac_fired clk))
             \<or> (k = fatigue_key e \<and> ok2
                \<and> last_alert_times am' k = Some (fc_fired (ac_fatigue clk))))"
    if r: "check_and_generate_alerts am db sc e clk ok1 ok2 = Inr (gen, am', db')"
  proof -
    note st = check_and_generate_alerts_step [OF r]
    have kd: "high_stress_key e \<noteq> fatigue_key e" by (rule keys_differ)
    have ent: "last_alert_times am' x =
        (if x = fatigue_key e \<and> (fatigue_condition sc e (fc_time (ac_fatigue clk))
              \<and> can_generate_alert am (fatigue_key e) (fc_check (ac_fatigue clk)) \<and> ok2)
         then Some (fc_fired (ac_fatigue clk))
         else if x = high_stress_key e \<and> (high_stress_condition am db e (ac_window clk)
              \<and> can_generate_alert am (high_stress_key e) (ac_check clk) \<and> ok1)
         then Some (ac_fired clk)
         else last_alert_times am x)" for x
      by (subst st(2)) (rule refl)
    have p1: "last_alert_times am' (high_stress_key e) = last_alert_times am (high_stress_key e)
           \<and> (\<forall>a \<in> set gen. a_alert_type a \<noteq> HIGH_STRESS_PROLONGED)
           \<and> (\<forall>t. can_generate_alert am' (high_stress_key e) t =
                    can_generate_alert am (high_stress_key e) t)
           \<and> (\<forall>t. can_generate_alert am (high_stress_key e) (ac_check clk)
                    \<and> ac_check clk \<le> t \<longrightarrow> can_generate_alert am' (high_stress_key e) t)"
      if n: "\<not> ok1"
    proof -
      have h: "last_alert_times am' (high_stress_key e)
          = last_alert_times am (high_stress_key e)"
        using n kd by (simp add: ent)
      have g: "\<forall>a \<in> set gen. a_alert_type a \<noteq> HIGH_STRESS_PROLONGED"
        using n st(3) by fastforce
      have c: "can_generate_alert am' (high_stress_key e) t =
          can_generate_alert am (high_stress_key e) t" for t
        using h st(1) by (rule can_generate_alert_cong)
      have l: "can_generate_alert am' (high_stress_key e) t"
        if "can_generate_alert am (high_stress_key e) (ac_check clk) \<and> ac_check clk \<le> t"
        for t
        using that can_generate_alert_later [of am "high_stress_key e" "ac_check clk" t]
        by (simp add: c)
      from h g c l show ?thesis by blast
    qed
    have p2: "last_alert_times am' (fatigue_key e) = last_alert_times am (fatigue_key e)
           \<and> (\<forall>a \<in> set gen. a_alert_type a \<noteq> FATIGUE_DETECTED)
           \<and> (\<forall>t. can_generate_alert am' (fatigue_key e) t =
                    can_generate_alert am (fatigue_key e) t)
           \<and> (\<forall>t. can_generate_alert am (fatigue_key e) (fc_check (ac_fatigue clk))
                    \<and> fc_check (ac_fatigue clk) \<le> t \<longrightarrow>
                    can_generate_alert am' (fatigue_key e) t)"
      if n: "\<not> ok2"
    proof -
      have h: "last_alert_times am' (fatigue_key e) = last_alert_times am (fatigue_key e)"
        using n kd by (simp add: ent)
      have g: "\<forall>a \<in> set gen. a_alert_type a \<noteq> FATIGUE_DETECTED"
        using n st(3) by fastforce
      have c: "can_generate_alert am' (fatigue_key e) t =
          can_generate_alert am (fatigue_key e) t" for t
        using h st(1) by (rule can_generate_alert_cong)
      have l: "can_generate_alert am' (fatigue_key e) t"
        if "can_generate_alert am (fatigue_key e) (fc_check (ac_fatigue clk))
            \<and> fc_check (ac_fatigue clk) \<le> t"
        for t
        using that
          can_generate_alert_later [of am "fatigue_key e" "fc_check (ac_fatigue clk)" t]
        by (simp add: c)
      from h g c l show ?thesis by blast
    qed
    have p3: "(k = high_stress_key e \<and> ok1
                \<and> last_alert_times am' k = Some (ac_fired clk))
             \<or> (k = fatigue_key e \<and> ok2
                \<and> last_alert_times am' k = Some (fc_fired (ac_fatigue clk)))"
      if "last_alert_times am' k \<noteq> last_alert_times am k"
      using that by (simp add: ent split: if_splits)
    from p1 p2 p3 show ?thesis by blast
  qed
  from ret main show ?thesis by blast
qed

text \<open>
  The ten detections with a failing insertion: the call returns no alert and leaves the
  manager as it was, so the key is eligible at the next tick, 30 seconds later. With the
  insertion going through, the entry changes, to the reading 100.
\<close>

theorem failed_write_keeps_cooldown_witness:
  "0 < alert_threshold default_manager
   \<and> high_stress_condition default_manager db_ten_high (Some ''E1'') 100
   \<and> can_generate_alert default_manager (high_stress_key (Some ''E1'')) 100
   \<and> check_and_generate_alerts default_manager db_ten_high default_calculator
        (Some ''E1'') (clock_at 100) False False = Inr ([], default_manager, db_ten_high)
   \<and> can_generate_alert default_manager (high_stress_key (Some ''E1'')) 30000100
   \<and> last_alert_times fired_manager (high_stress_key (Some ''E1''))
       \<noteq> last_alert_times default_manager (high_stress_key (Some ''E1''))
   \<and> last_alert_times fired_manager (high_stress_key (Some ''E1''))
       = Some (ac_fired (clock_at 100))"
proof -
  let ?k = "high_stress_key (Some ''E1'')"
  have th: "0 < alert_threshold default_manager"
    by (simp add: fired_manager_fields)
  have r: "check_and_generate_alerts default_manager db_ten_high default_calculator
        (Some ''E1'') (clock_at 100) False False = Inr ([], default_manager, db_ten_high)"
    by (rule example_failed_call)
  have e0: "can_generate_alert default_manager ?k (ac_check (clock_at 100))"
    by (rule example_eligible)
  have le: "ac_check (clock_at 100) \<le> 30000100"
    by (simp add: clock_at_def)
  have e1: "can_generate_alert default_manager ?k 30000100"
    using failed_write_keeps_cooldown [where am = default_manager and db = db_ten_high
        and sc = default_calculator and e = "Some ''E1''" and clk = "clock_at 100"
        and ?ok1.0 = False and ?ok2.0 = False and gen = "[]" and am' = default_manager
        and db' = db_ten_high] r e0 le
    by blast
  have r2: "check_and_generate_alerts default_manager db_ten_high default_calculator
        (Some ''E1'') (clock_at 100) True True
       = Inr ([first_alert], fired_manager, db_ten_high\<lparr>alerts := [first_alert]\<rparr>)"
    by (rule example_first_result)
  have ne: "last_alert_times fired_manager ?k \<noteq> last_alert_times default_manager ?k"
    by (simp add: fired_manager_fields)
  have kd: "?k \<noteq> fatigue_key (Some ''E1'')"
    by (rule keys_differ)
  have ch: "last_alert_times fired_manager ?k = Some (ac_fired (clock_at 100))"
    using failed_write_keeps_cooldown [where am = default_manager and db = db_ten_high
        and sc = default_calculator and e = "Some ''E1''" and clk = "clock_at 100"
        and ?ok1.0 = True and ?ok2.0 = True and gen = "[first_alert]"
        and am' = fired_manager and db' = "db_ten_high\<lparr>alerts := [first_alert]\<rparr>"
        and k = ?k] r2 ne kd
    by blast
  have c0: "can_generate_alert default_manager ?k 100"
    by (rule example_eligible)
  from th example_condition c0 r e1 ne ch show ?thesis by blast
qed

end
